theory Spec2Isabelle
  imports Complex_Main "HOL-Library.AList"
begin

section \<open>The import command of gh-migrate-project\<close>

text \<open>
  A shallow embedding of \<^verbatim>\<open>src/commands/import.ts\<close>. Pure functions of the source are
  HOL functions of the same name. A JavaScript \<^verbatim>\<open>Map\<close> is an association list with
  distinct keys in insertion order: \<^verbatim>\<open>map.set(k, v)\<close> is \<^const>\<open>AList.update\<close> (the
  value is replaced in place, a new key goes to the end), \<^verbatim>\<open>map.get(k)\<close> is
  \<^const>\<open>map_of\<close> and \<^verbatim>\<open>map.size\<close> is \<^const>\<open>length\<close>. A value that may be
  \<^verbatim>\<open>undefined\<close> is an \<open>option\<close>; a string is falsy exactly when it is empty.
\<close>

subsection \<open>Data model\<close>

text \<open>
  The types \<^verbatim>\<open>Project\<close> and \<^verbatim>\<open>ProjectItem\<close> are declared in
  \<^verbatim>\<open>graphql-types.ts\<close>; the records below hold the members that \<^verbatim>\<open>import.ts\<close> reads.
\<close>

record fieldOption =
  opt_id :: string
  opt_name :: string
  opt_color :: "string option"
  opt_description :: "string option"

record projectField =
  field_id :: string
  field_name :: string
  field_dataType :: string
  field_options :: "fieldOption list option"

record project =
  project_title :: string
  project_fields :: "projectField list"
  project_repositories :: "string list"

record fieldValue =
  fv_typename :: string
  fv_field_id :: string
  fv_field_name :: string
  fv_date :: "string option"
  fv_number :: "real option"
  fv_text :: "string option"
  fv_optionId :: "string option"

text \<open>
  The content of a project item, by its \<^verbatim>\<open>__typename\<close>: an issue or pull request
  carries \<^verbatim>\<open>repository.nameWithOwner\<close>, \<^verbatim>\<open>number\<close> and \<^verbatim>\<open>title\<close>; a draft issue
  carries \<^verbatim>\<open>title\<close>, \<^verbatim>\<open>body\<close>, \<^verbatim>\<open>creator?.login\<close> and \<^verbatim>\<open>createdAt\<close>; any other
  type name is kept as it is.
\<close>

datatype content =
    Issue string int string
  | PullRequest string int string
  | DraftIssue string string "string option" string
  | OtherContent string

record projectItem =
  item_id :: string
  isArchived :: bool
  item_content :: content
  fieldValues :: "fieldValue list"

text \<open>
  Every \<^verbatim>\<open>throw new Error(...)\<close> of the file is a constructor; \<open>Thrown msg\<close> is an
  exception with message \<open>msg\<close> raised by a collaborator (the GraphQL client, the file
  system, the JSON and CSV parsers), \<open>TypeError\<close> a property read on \<^verbatim>\<open>undefined\<close>.
\<close>

datatype error =
    MissingAccessToken
  | InputPathDoesNotExist string
  | RepositoryMappingsPathDoesNotExist string
  | InvalidRepositoryMappingsCsv
  | NoRepositoryMappings string
  | UnsupportedGitHubEnterpriseServerVersion string
  | OptionCountMismatch
  | UnknownContentType
  | TypeError
  | Thrown string

subsection \<open>Reading the repository mappings\<close>

text \<open>
  \<^verbatim>\<open>parse({ headers: true })\<close> turns every data row of the file into an object keyed by
  the header line and emits it as a \<^verbatim>\<open>data\<close> event; a row is the list of its
  (header, cell) pairs in column order, so \<^verbatim>\<open>Object.keys(row)\<close> is \<open>map fst row\<close>.
  The stream may also emit \<^verbatim>\<open>error\<close>. The promise settles once: a later
  \<^verbatim>\<open>reject\<close> or \<^verbatim>\<open>resolve\<close> has no effect.
\<close>

type_synonym row = "(string \<times> string) list"

datatype csvEvent = Data row | ParseError string

definition rowHeaders :: "row \<Rightarrow> string list" where
  "rowHeaders row = map fst row"

definition hasMappingHeaders :: "row \<Rightarrow> bool" where
  "hasMappingHeaders row \<longleftrightarrow>
     length (rowHeaders row) = 2 \<and>
     ''source_repository'' \<in> set (rowHeaders row) \<and>
     ''target_repository'' \<in> set (rowHeaders row)"

definition reject :: "error \<Rightarrow> error option \<Rightarrow> error option" where
  "reject e rejection = (case rejection of None \<Rightarrow> Some e | Some e' \<Rightarrow> Some e')"

text \<open>
  The \<^verbatim>\<open>data\<close> handler. In the accepting branch both cells exist, so the last case
  is never taken (lemma \<open>hasMappingHeaders_cells\<close>).
\<close>

definition onData :: "row \<Rightarrow> (string \<times> string) list \<times> error option
    \<Rightarrow> (string \<times> string) list \<times> error option" where
  "onData row st =
     (case st of (output, rejection) \<Rightarrow>
        if hasMappingHeaders row then
          (case (map_of row ''source_repository'', map_of row ''target_repository'') of
             (Some source_repository, Some target_repository) \<Rightarrow>
               if target_repository \<noteq> []
               then (AList.update source_repository target_repository output, rejection)
               else (output, rejection)
           | _ \<Rightarrow> (output, rejection))
        else (output, reject InvalidRepositoryMappingsCsv rejection))"

fun onEvents :: "csvEvent list \<Rightarrow> (string \<times> string) list \<times> error option
    \<Rightarrow> (string \<times> string) list \<times> error option" where
  "onEvents [] st = st"
| "onEvents (Data row # events) st = onEvents events (onData row st)"
| "onEvents (ParseError msg # events) st =
     onEvents events (fst st, reject (Thrown msg) (snd st))"

definition readRepositoryMappings :: "csvEvent list \<Rightarrow> error + (string \<times> string) list" where
  "readRepositoryMappings events =
     (case onEvents events ([], None) of
        (output, None) \<Rightarrow> Inr output
      | (output, Some e) \<Rightarrow> Inl e)"

subsection \<open>Correlating the options of a field\<close>

fun correlateLoop :: "fieldOption list \<Rightarrow> fieldOption list \<Rightarrow> (string \<times> string) list
    \<Rightarrow> (string \<times> string) list" where
  "correlateLoop [] newOptions m = m"
| "correlateLoop (oldOption # oldOptions) newOptions m =
     (case find (\<lambda>option. opt_name option = opt_name oldOption) newOptions of
        Some newOption \<Rightarrow>
          correlateLoop oldOptions newOptions (AList.update (opt_id oldOption) (opt_id newOption) m)
      | None \<Rightarrow> correlateLoop oldOptions newOptions m)"

definition correlateCustomFieldOptions :: "fieldOption list \<Rightarrow> fieldOption list
    \<Rightarrow> error + (string \<times> string) list" where
  "correlateCustomFieldOptions oldOptions newOptions =
     (if length oldOptions \<noteq> length newOptions then Inl OptionCountMismatch
      else Inr (correlateLoop oldOptions newOptions []))"

subsection \<open>Strings\<close>

text \<open>\<^verbatim>\<open>s.includes(sub)\<close> and \<^verbatim>\<open>s.split(c)\<close> for a one-character separator.\<close>

fun startsWith :: "string \<Rightarrow> string \<Rightarrow> bool" where
  "startsWith s [] = True"
| "startsWith [] (c # cs) = False"
| "startsWith (x # xs) (c # cs) = (x = c \<and> startsWith xs cs)"

fun str_includes :: "string \<Rightarrow> string \<Rightarrow> bool" where
  "str_includes [] sub = (sub = [])"
| "str_includes (x # xs) sub = (startsWith (x # xs) sub \<or> str_includes xs sub)"

fun split :: "char \<Rightarrow> string \<Rightarrow> string list" where
  "split c [] = [[]]"
| "split c (x # xs) =
     (if x = c then [] # split c xs
      else (case split c xs of [] \<Rightarrow> [[x]] | p # ps \<Rightarrow> (x # p) # ps))"

text \<open>\<^verbatim>\<open>const [a, b] = parts\<close>: a missing element is \<^verbatim>\<open>undefined\<close>.\<close>

fun firstTwo :: "'a list \<Rightarrow> 'a option \<times> 'a option" where
  "firstTwo [] = (None, None)"
| "firstTwo [a] = (Some a, None)"
| "firstTwo (a # b # rest) = (Some a, Some b)"

text \<open>A string in a condition: \<^verbatim>\<open>undefined\<close> and the empty string are falsy.\<close>

fun truthy :: "string option \<Rightarrow> string option" where
  "truthy None = None"
| "truthy (Some s) = (if s = [] then None else Some s)"

subsection \<open>Fields, field values and the value payload\<close>

definition isCustomField :: "projectField \<Rightarrow> bool" where
  "isCustomField field \<longleftrightarrow>
     field_dataType field \<in> set [''TEXT'', ''SINGLE_SELECT'', ''DATE'', ''NUMBER''] \<and>
     field_name field \<noteq> ''Status''"

definition isProjectItemCustomFieldValue :: "fieldValue \<Rightarrow> bool" where
  "isProjectItemCustomFieldValue field =
     (if fv_typename field \<in> set
          [''ProjectV2ItemFieldRepositoryValue'',
           ''ProjectV2ItemFieldLabelValue'',
           ''ProjectV2ItemFieldUserValue'',
           ''ProjectV2ItemFieldPullRequestValue'',
           ''ProjectV2ItemFieldReviewerValue'',
           ''ProjectV2ItemFieldIterationValue'',
           ''ProjectV2ItemFieldMilestoneValue'',
           ''ProjectV2ItemFieldReviewerValue'']
      then False
      else fv_field_name field \<noteq> ''Title'')"

record customField =
  targetId :: string
  optionMappings :: "(string \<times> string) list option"

record payload =
  v_date :: "string option"
  v_number :: "real option"
  v_singleSelectOptionId :: "string option"
  v_text :: "string option"

text \<open>The object literal \<^verbatim>\<open>value\<close> of the item loop.\<close>

definition fieldValuePayload :: "(string \<times> string) list option \<Rightarrow> fieldValue \<Rightarrow> payload" where
  "fieldValuePayload mappings field =
     \<lparr>v_date = fv_date field,
      v_number = fv_number field,
      v_singleSelectOptionId =
        (case (truthy (fv_optionId field), mappings) of
           (Some optionId, Some m) \<Rightarrow> map_of m optionId
         | _ \<Rightarrow> None),
      v_text = fv_text field\<rparr>"

text \<open>
  Modelled from the spec: the kind of a field value and the member of the snapshot's
  value it populates (data model, \<open>FieldValue\<close>: "kind determines which payload member
  is populated"); the export query that fixes it is not part of \<^verbatim>\<open>import.ts\<close>.
\<close>

datatype valueKind = TEXT | NUMBER | DATE | SINGLE_SELECT

definition hasKind :: "valueKind \<Rightarrow> fieldValue \<Rightarrow> bool" where
  "hasKind k field =
     (case k of
        TEXT \<Rightarrow> fv_text field \<noteq> None \<and> fv_number field = None \<and> fv_date field = None
          \<and> fv_optionId field = None
      | NUMBER \<Rightarrow> fv_text field = None \<and> fv_number field \<noteq> None \<and> fv_date field = None
          \<and> fv_optionId field = None
      | DATE \<Rightarrow> fv_text field = None \<and> fv_number field = None \<and> fv_date field \<noteq> None
          \<and> fv_optionId field = None
      | SINGLE_SELECT \<Rightarrow> fv_text field = None \<and> fv_number field = None \<and> fv_date field = None
          \<and> fv_optionId field \<noteq> None)"

text \<open>The members of a payload that are populated.\<close>

definition populated :: "payload \<Rightarrow> valueKind set" where
  "populated v =
     (if v_text v \<noteq> None then {TEXT} else {}) \<union>
     (if v_number v \<noteq> None then {NUMBER} else {}) \<union>
     (if v_date v \<noteq> None then {DATE} else {}) \<union>
     (if v_singleSelectOptionId v \<noteq> None then {SINGLE_SELECT} else {})"

subsection \<open>The body of a draft issue\<close>

text \<open>
  The template literal of \<^verbatim>\<open>createProjectItemReferencingDraftIssue\<close>; a missing
  creator is interpolated as the text \<^verbatim>\<open>undefined\<close>.
\<close>

definition draftIssueBody :: "string option \<Rightarrow> string \<Rightarrow> string \<Rightarrow> string" where
  "draftIssueBody creatorLogin createdAt originalBody =
     ''**Created by `@'' @ (case creatorLogin of None \<Rightarrow> ''undefined'' | Some login \<Rightarrow> login)
       @ ''` on '' @ createdAt @ ''**\<newline>\<newline>'' @ originalBody"

subsection \<open>Effects: the trace of a run and the collaborators\<close>

text \<open>
  A run is sequential, so its effects are a list of events, oldest first: every call
  of a collaborator (a GraphQL request, a prompt, a line printed for the operator) and
  every warning of the logger. The arguments of an event are the variables of the
  request. Progress messages of \<^verbatim>\<open>logger.info\<close>, the update check and the interval
  that polls the rate limit change nothing the run reads and are left out.
\<close>

datatype warning =
    ProxyWithoutSkippedCertificateVerification
  | NoRepositoryMappingForItem string string
  | IssueOrPullRequestDoesNotExist string string int
  | TitleDoesNotMatch string string int string
  | NoRepositoryMappingForRepository string
  | PlaceholderDescriptionAdded string string
  | DefaultColorAdded string string
  | NoMappingForField string

text \<open>
  What \<^verbatim>\<open>console.log\<close> prints: the first prompt of the Status protocol (with the
  URL of the target project and the expected option names), its shorter repetition,
  and the closing message.
\<close>

datatype notice =
    StatusFirstRunInstructions string "string list"
  | StatusRetryInstructions
  | MigrationComplete string

record selectOption =
  so_name :: string
  so_description :: string
  so_color :: string

datatype event =
    Warn warning
  | ConsoleLog notice
  | Question
  | LogRateLimitInformation
  | GetGitHubProductInformation
  | PosthogCapture
  | GetOrganizationGlobalId string
  | GetUserGlobalId string
  | CreateProject string string
  | GetGlobalIdForRepository "string option" "string option"
  | AddRepositoryToProject string string
  | CreateProjectField string string string "selectOption list"
  | GetProjectStatusField string
  | GetIssueOrPullRequest "string option" "string option" int
  | AddItemToProject string string
  | AddDraftIssueToProject string string string
  | ArchiveProjectItem string string
  | UpdateProjectItemFieldValue string string string payload
  | PosthogShutdown
  | ProcessExit

record createdProjectField =
  created_id :: string
  created_name :: string
  created_options :: "fieldOption list"

record statusField =
  status_id :: string
  status_options :: "fieldOption list"

text \<open>
  The world outside the file. A request is answered from the trace so far, so the same
  request may be answered differently later (the operator edits the Status field
  between two fetches); \<open>Inl msg\<close> is an exception with message \<open>msg\<close>, which is also
  how a response without the member the wrapper reads shows. \<open>getReferencedRepositories\<close>
  (of \<^verbatim>\<open>project-items.ts\<close>), the version comparison \<^verbatim>\<open>semver.lte\<close> against
  \<^verbatim>\<open>MINIMUM_SUPPORTED_GITHUB_ENTERPRISE_SERVER_VERSION_FOR_IMPORTS\<close> and the parsers
  are parameters. \<open>acknowledgements\<close> is how many times the operator presses Enter.
\<close>

record world =
  env_IMPORT_GITHUB_TOKEN :: "string option"
  existsSync :: "string \<Rightarrow> bool"
  readSnapshot :: "string \<Rightarrow> string + project \<times> projectItem list"
  parseCsv :: "string \<Rightarrow> csvEvent list"
  getReferencedRepositories :: "projectItem list \<Rightarrow> string list"
  logRateLimitInformation :: "event list \<Rightarrow> string + bool"
  getGitHubProductInformation :: "event list \<Rightarrow> string + string \<times> bool"
  lteMinimumSupportedVersion :: "string \<Rightarrow> bool"
  acknowledgements :: nat
  gql_getOrganizationGlobalId :: "event list \<Rightarrow> string \<Rightarrow> string + string"
  gql_getUserGlobalId :: "event list \<Rightarrow> string \<Rightarrow> string + string"
  gql_createProject :: "event list \<Rightarrow> string \<Rightarrow> string \<Rightarrow> string + string \<times> string"
  gql_getGlobalIdForRepository ::
    "event list \<Rightarrow> string option \<Rightarrow> string option \<Rightarrow> string + string"
  gql_addRepositoryToProject :: "event list \<Rightarrow> string \<Rightarrow> string \<Rightarrow> string + unit"
  gql_createProjectField ::
    "event list \<Rightarrow> string \<Rightarrow> string \<Rightarrow> string \<Rightarrow> selectOption list
      \<Rightarrow> string + createdProjectField"
  gql_getProjectStatusField :: "event list \<Rightarrow> string \<Rightarrow> string + statusField"
  gql_getGlobalIdForIssue ::
    "event list \<Rightarrow> string option \<Rightarrow> string option \<Rightarrow> int
      \<Rightarrow> string + (string \<times> string) option"
  gql_createProjectItem :: "event list \<Rightarrow> string \<Rightarrow> string \<Rightarrow> string + string"
  gql_addDraftIssueToProject ::
    "event list \<Rightarrow> string \<Rightarrow> string \<Rightarrow> string \<Rightarrow> string + string"
  gql_archiveProjectItem :: "event list \<Rightarrow> string \<Rightarrow> string \<Rightarrow> string + unit"
  gql_updateProjectItemFieldValue ::
    "event list \<Rightarrow> string \<Rightarrow> string \<Rightarrow> string \<Rightarrow> payload \<Rightarrow> string + unit"

text \<open>
  How an asynchronous function ends: it returns, it throws, or it waits for ever for the
  operator (\<^verbatim>\<open>rl.question\<close> has no timeout).
\<close>

datatype 'a result = Returned 'a | Threw error | Waiting

type_synonym 'a run = "event list \<times> 'a result"

definition andThen :: "'a run \<Rightarrow> (event list \<Rightarrow> 'a \<Rightarrow> 'b run) \<Rightarrow> 'b run" where
  "andThen r k =
     (case r of
        (tr, Returned v) \<Rightarrow> k tr v
      | (tr, Threw e) \<Rightarrow> (tr, Threw e)
      | (tr, Waiting) \<Rightarrow> (tr, Waiting))"

definition request :: "event \<Rightarrow> string + 'a \<Rightarrow> event list \<Rightarrow> 'a run" where
  "request ev response tr =
     (tr @ [ev], case response of Inl msg \<Rightarrow> Threw (Thrown msg) | Inr v \<Rightarrow> Returned v)"

subsection \<open>The GraphQL wrappers\<close>

datatype projectOwnerType = Organization | User

definition getOwnerGlobalId :: "world \<Rightarrow> string \<Rightarrow> projectOwnerType \<Rightarrow> event list \<Rightarrow> string run" where
  "getOwnerGlobalId w projectOwner ownerType tr =
     (case ownerType of
        Organization \<Rightarrow>
          request (GetOrganizationGlobalId projectOwner) (gql_getOrganizationGlobalId w tr projectOwner) tr
      | User \<Rightarrow>
          request (GetUserGlobalId projectOwner) (gql_getUserGlobalId w tr projectOwner) tr)"

definition createProject :: "world \<Rightarrow> string \<Rightarrow> string \<Rightarrow> event list \<Rightarrow> (string \<times> string) run" where
  "createProject w ownerId title tr =
     request (CreateProject ownerId title) (gql_createProject w tr ownerId title) tr"

text \<open>
  The only wrapper with a handler: an exception whose message includes the phrase is the
  answer \<^verbatim>\<open>null\<close>, any other exception is thrown again.
\<close>

definition getIssueOrPullRequestByRepositoryAndNumber ::
    "world \<Rightarrow> string option \<Rightarrow> string option \<Rightarrow> int \<Rightarrow> event list
      \<Rightarrow> (string \<times> string) option run" where
  "getIssueOrPullRequestByRepositoryAndNumber w owner name number tr =
     (tr @ [GetIssueOrPullRequest owner name number],
      case gql_getGlobalIdForIssue w tr owner name number of
        Inr issueOrPullRequest \<Rightarrow> Returned issueOrPullRequest
      | Inl msg \<Rightarrow>
          if str_includes msg ''Could not resolve to an issue or pull request''
          then Returned None
          else Threw (Thrown msg))"

definition getGlobalIdForRepository ::
    "world \<Rightarrow> string option \<Rightarrow> string option \<Rightarrow> event list \<Rightarrow> string run" where
  "getGlobalIdForRepository w owner name tr =
     request (GetGlobalIdForRepository owner name) (gql_getGlobalIdForRepository w tr owner name) tr"

definition addRepositoryToProject :: "world \<Rightarrow> string \<Rightarrow> string \<Rightarrow> event list \<Rightarrow> unit run" where
  "addRepositoryToProject w projectId repositoryId tr =
     request (AddRepositoryToProject projectId repositoryId)
       (gql_addRepositoryToProject w tr projectId repositoryId) tr"

definition archiveProjectItem :: "world \<Rightarrow> string \<Rightarrow> string \<Rightarrow> event list \<Rightarrow> unit run" where
  "archiveProjectItem w projectId itemId tr =
     request (ArchiveProjectItem projectId itemId) (gql_archiveProjectItem w tr projectId itemId) tr"

definition addItemToProject :: "world \<Rightarrow> string \<Rightarrow> string \<Rightarrow> event list \<Rightarrow> string run" where
  "addItemToProject w projectId contentId tr =
     request (AddItemToProject projectId contentId) (gql_createProjectItem w tr projectId contentId) tr"

definition updateProjectItemFieldValue ::
    "world \<Rightarrow> string \<Rightarrow> string \<Rightarrow> string \<Rightarrow> payload \<Rightarrow> event list \<Rightarrow> unit run" where
  "updateProjectItemFieldValue w projectId itemId fieldId v tr =
     request (UpdateProjectItemFieldValue projectId itemId fieldId v)
       (gql_updateProjectItemFieldValue w tr projectId itemId fieldId v) tr"

definition createProjectField ::
    "world \<Rightarrow> string \<Rightarrow> string \<Rightarrow> string \<Rightarrow> selectOption list \<Rightarrow> event list
      \<Rightarrow> createdProjectField run" where
  "createProjectField w projectId name dataType singleSelectOptions tr =
     request (CreateProjectField projectId name dataType singleSelectOptions)
       (gql_createProjectField w tr projectId name dataType singleSelectOptions) tr"

definition getProjectStatusField :: "world \<Rightarrow> string \<Rightarrow> event list \<Rightarrow> statusField run" where
  "getProjectStatusField w projectId tr =
     request (GetProjectStatusField projectId) (gql_getProjectStatusField w tr projectId) tr"

definition addDraftIssueToProject ::
    "world \<Rightarrow> string \<Rightarrow> string \<Rightarrow> string \<Rightarrow> event list \<Rightarrow> string option run" where
  "addDraftIssueToProject w title body targetProjectId tr =
     request (AddDraftIssueToProject title body targetProjectId)
       (map_sum id Some (gql_addDraftIssueToProject w tr title body targetProjectId)) tr"

subsection \<open>Creating one project item\<close>

definition createProjectItemReferencingIssueOrPullRequest ::
    "world \<Rightarrow> (string \<times> string) list \<Rightarrow> string \<Rightarrow> string \<Rightarrow> string \<Rightarrow> int \<Rightarrow> string
      \<Rightarrow> event list \<Rightarrow> string option run" where
  "createProjectItemReferencingIssueOrPullRequest w repositoryMappings targetProjectId
       sourceItemId sourceNameWithOwner number sourceTitle tr =
     (case truthy (map_of repositoryMappings sourceNameWithOwner) of
        None \<Rightarrow>
          (tr @ [Warn (NoRepositoryMappingForItem sourceItemId sourceNameWithOwner)], Returned None)
      | Some destinationNameWithOwner \<Rightarrow>
          (case firstTwo (split CHR ''/'' destinationNameWithOwner) of
             (destinationOwner, destinationName) \<Rightarrow>
               andThen
                 (getIssueOrPullRequestByRepositoryAndNumber w destinationOwner destinationName number tr)
                 (\<lambda>tr1 issueOrPullRequest.
                    case issueOrPullRequest of
                      None \<Rightarrow>
                        (tr1 @ [Warn (IssueOrPullRequestDoesNotExist sourceItemId
                                   destinationNameWithOwner number)],
                         Returned None)
                    | Some (contentId, title) \<Rightarrow>
                        andThen
                          (addItemToProject w targetProjectId contentId
                             (if sourceTitle \<noteq> title
                              then tr1 @ [Warn (TitleDoesNotMatch sourceItemId
                                             destinationNameWithOwner number sourceNameWithOwner)]
                              else tr1))
                          (\<lambda>tr2 createdProjectItemId. (tr2, Returned (Some createdProjectItemId))))))"

definition createProjectItemReferencingDraftIssue ::
    "world \<Rightarrow> string \<Rightarrow> string \<Rightarrow> string \<Rightarrow> string option \<Rightarrow> string \<Rightarrow> event list
      \<Rightarrow> string option run" where
  "createProjectItemReferencingDraftIssue w targetProjectId title originalBody creatorLogin
       createdAt tr =
     addDraftIssueToProject w title (draftIssueBody creatorLogin createdAt originalBody)
       targetProjectId tr"

definition createProjectItem ::
    "world \<Rightarrow> (string \<times> string) list \<Rightarrow> string \<Rightarrow> projectItem \<Rightarrow> event list
      \<Rightarrow> string option run" where
  "createProjectItem w repositoryMappings targetProjectId sourceProjectItem tr =
     (case item_content sourceProjectItem of
        Issue nameWithOwner number title \<Rightarrow>
          createProjectItemReferencingIssueOrPullRequest w repositoryMappings targetProjectId
            (item_id sourceProjectItem) nameWithOwner number title tr
      | PullRequest nameWithOwner number title \<Rightarrow>
          createProjectItemReferencingIssueOrPullRequest w repositoryMappings targetProjectId
            (item_id sourceProjectItem) nameWithOwner number title tr
      | DraftIssue title body creatorLogin createdAt \<Rightarrow>
          createProjectItemReferencingDraftIssue w targetProjectId title body creatorLogin
            createdAt tr
      | OtherContent typename \<Rightarrow> (tr, Threw UnknownContentType))"

subsection \<open>The item loop\<close>

text \<open>The body of the inner loop: one custom field value of a created item.\<close>

definition setFieldValue ::
    "world \<Rightarrow> string \<Rightarrow> string \<Rightarrow> (string \<times> customField) list \<Rightarrow> fieldValue \<Rightarrow> event list
      \<Rightarrow> unit run" where
  "setFieldValue w targetProjectId createdProjectItemId fieldMappings field tr =
     (case map_of fieldMappings (fv_field_id field) of
        None \<Rightarrow> (tr @ [Warn (NoMappingForField (fv_field_id field))], Returned ())
      | Some fieldMapping \<Rightarrow>
          updateProjectItemFieldValue w targetProjectId createdProjectItemId
            (targetId fieldMapping) (fieldValuePayload (optionMappings fieldMapping) field) tr)"

fun setFieldValues ::
    "world \<Rightarrow> string \<Rightarrow> string \<Rightarrow> (string \<times> customField) list \<Rightarrow> fieldValue list
      \<Rightarrow> event list \<Rightarrow> unit run" where
  "setFieldValues w targetProjectId createdProjectItemId fieldMappings [] tr = (tr, Returned ())"
| "setFieldValues w targetProjectId createdProjectItemId fieldMappings (field # rest) tr =
     (case setFieldValue w targetProjectId createdProjectItemId fieldMappings field tr of
        (tr1, Returned u) \<Rightarrow>
          setFieldValues w targetProjectId createdProjectItemId fieldMappings rest tr1
      | (tr1, Threw e) \<Rightarrow> (tr1, Threw e)
      | (tr1, Waiting) \<Rightarrow> (tr1, Waiting))"

text \<open>
  The body of the outer loop. \<^verbatim>\<open>if (!createdProjectItemId) continue\<close> leaves the item
  when the identifier is \<^verbatim>\<open>undefined\<close> or empty.
\<close>

definition afterCreation ::
    "world \<Rightarrow> (string \<times> customField) list \<Rightarrow> string \<Rightarrow> projectItem \<Rightarrow> string option
      \<Rightarrow> event list \<Rightarrow> unit run" where
  "afterCreation w fieldMappings targetProjectId sourceProjectItem created tr =
     (case truthy created of
        None \<Rightarrow> (tr, Returned ())
      | Some createdProjectItemId \<Rightarrow>
          andThen
            (if isArchived sourceProjectItem
             then archiveProjectItem w targetProjectId createdProjectItemId tr
             else (tr, Returned ()))
            (\<lambda>tr1 u.
               setFieldValues w targetProjectId createdProjectItemId fieldMappings
                 (filter isProjectItemCustomFieldValue (fieldValues sourceProjectItem)) tr1))"

definition replicateItem ::
    "world \<Rightarrow> (string \<times> string) list \<Rightarrow> (string \<times> customField) list \<Rightarrow> string
      \<Rightarrow> projectItem \<Rightarrow> event list \<Rightarrow> unit run" where
  "replicateItem w repositoryMappings fieldMappings targetProjectId sourceProjectItem tr =
     andThen (createProjectItem w repositoryMappings targetProjectId sourceProjectItem tr)
       (\<lambda>tr1 created.
          afterCreation w fieldMappings targetProjectId sourceProjectItem created tr1)"

fun replicateItems ::
    "world \<Rightarrow> (string \<times> string) list \<Rightarrow> (string \<times> customField) list \<Rightarrow> string
      \<Rightarrow> projectItem list \<Rightarrow> event list \<Rightarrow> unit run" where
  "replicateItems w repositoryMappings fieldMappings targetProjectId [] tr = (tr, Returned ())"
| "replicateItems w repositoryMappings fieldMappings targetProjectId (item # items) tr =
     (case replicateItem w repositoryMappings fieldMappings targetProjectId item tr of
        (tr1, Returned u) \<Rightarrow>
          replicateItems w repositoryMappings fieldMappings targetProjectId items tr1
      | (tr1, Threw e) \<Rightarrow> (tr1, Threw e)
      | (tr1, Waiting) \<Rightarrow> (tr1, Waiting))"

subsection \<open>Linking repositories and creating the custom fields\<close>

fun linkRepositories ::
    "world \<Rightarrow> (string \<times> string) list \<Rightarrow> string \<Rightarrow> string list \<Rightarrow> event list \<Rightarrow> unit run" where
  "linkRepositories w repositoryMappings targetProjectId [] tr = (tr, Returned ())"
| "linkRepositories w repositoryMappings targetProjectId (nameWithOwner # rest) tr =
     (case truthy (map_of repositoryMappings nameWithOwner) of
        None \<Rightarrow>
          linkRepositories w repositoryMappings targetProjectId rest
            (tr @ [Warn (NoRepositoryMappingForRepository nameWithOwner)])
      | Some targetRepositoryNameWithOwner \<Rightarrow>
          (case firstTwo (split CHR ''/'' targetRepositoryNameWithOwner) of
             (targetRepositoryOwner, targetRepositoryName) \<Rightarrow>
               (case andThen (getGlobalIdForRepository w targetRepositoryOwner targetRepositoryName tr)
                       (\<lambda>tr1 targetRepositoryId.
                          addRepositoryToProject w targetProjectId targetRepositoryId tr1) of
                  (tr2, Returned u) \<Rightarrow> linkRepositories w repositoryMappings targetProjectId rest tr2
                | (tr2, Threw e) \<Rightarrow> (tr2, Threw e)
                | (tr2, Waiting) \<Rightarrow> (tr2, Waiting))))"

definition newOption :: "fieldOption \<Rightarrow> selectOption" where
  "newOption option =
     \<lparr>so_name = opt_name option,
      so_description =
        (case opt_description option of None \<Rightarrow> ''Placeholder description'' | Some d \<Rightarrow> d),
      so_color = (case opt_color option of None \<Rightarrow> ''BLUE'' | Some c \<Rightarrow> c)\<rparr>"

definition newOptionWarnings :: "string \<Rightarrow> fieldOption \<Rightarrow> event list" where
  "newOptionWarnings name option =
     (if opt_description option = None
      then [Warn (PlaceholderDescriptionAdded (opt_name option) name)] else []) @
     (if opt_color option = None
      then [Warn (DefaultColorAdded (opt_name option) name)] else [])"

text \<open>
  A source field with options (an array, empty or not, is truthy) has them correlated
  with the options of the created field; any other field has \<^verbatim>\<open>null\<close>.
\<close>

fun createCustomFields ::
    "world \<Rightarrow> string \<Rightarrow> projectField list \<Rightarrow> (string \<times> customField) list \<Rightarrow> event list
      \<Rightarrow> (string \<times> customField) list run" where
  "createCustomFields w targetProjectId [] fieldMappings tr = (tr, Returned fieldMappings)"
| "createCustomFields w targetProjectId (customFieldToCreate # rest) fieldMappings tr =
     (let options = field_options customFieldToCreate;
          name = field_name customFieldToCreate;
          fieldOptionsForCreation = (case options of None \<Rightarrow> [] | Some os \<Rightarrow> map newOption os);
          tr0 = tr @ (case options of None \<Rightarrow> [] | Some os \<Rightarrow> concat (map (newOptionWarnings name) os))
      in case createProjectField w targetProjectId name (field_dataType customFieldToCreate)
                fieldOptionsForCreation tr0 of
           (tr1, Threw e) \<Rightarrow> (tr1, Threw e)
         | (tr1, Waiting) \<Rightarrow> (tr1, Waiting)
         | (tr1, Returned createdField) \<Rightarrow>
             (case (case options of
                      None \<Rightarrow> Inr None
                    | Some os \<Rightarrow>
                        map_sum id Some (correlateCustomFieldOptions os (created_options createdField))) of
                Inl e \<Rightarrow> (tr1, Threw e)
              | Inr mappings \<Rightarrow>
                  createCustomFields w targetProjectId rest
                    (AList.update (field_id customFieldToCreate)
                       \<lparr>targetId = created_id createdField, optionMappings = mappings\<rparr>
                       fieldMappings)
                    tr1))"

subsection \<open>The Status field protocol\<close>

text \<open>
  One call fetches the Status field of the target and tries the correlation
  (\<open>checkStatusFields\<close>, the body up to \<^verbatim>\<open>rl.question\<close>); when that throws, it prints
  (the long instructions on the first run, the short ones later), waits for Enter and
  calls itself with \<^verbatim>\<open>isFirstRun = false\<close>. \<open>acks\<close> counts the times the operator will
  still press Enter: with none left the run waits for ever.
\<close>

datatype 'a attempt = Settled "'a run" | Retry "event list"

definition checkStatusFields ::
    "world \<Rightarrow> project \<Rightarrow> string \<Rightarrow> string \<Rightarrow> bool \<Rightarrow> event list
      \<Rightarrow> (string \<times> string \<times> (string \<times> string) list) attempt" where
  "checkStatusFields w sourceProject targetProjectId targetProjectUrl isFirstRun tr =
     (case find (\<lambda>field. field_name field = ''Status'') (project_fields sourceProject) of
        None \<Rightarrow> Settled (tr, Threw TypeError)
      | Some sourceProjectStatusField \<Rightarrow>
          (case field_options sourceProjectStatusField of
             None \<Rightarrow> Settled (tr, Threw TypeError)
           | Some sourceOptions \<Rightarrow>
               (case getProjectStatusField w targetProjectId tr of
                  (tr1, Threw e) \<Rightarrow> Settled (tr1, Threw e)
                | (tr1, Waiting) \<Rightarrow> Settled (tr1, Waiting)
                | (tr1, Returned targetProjectStatusField) \<Rightarrow>
                    (case correlateCustomFieldOptions sourceOptions
                            (status_options targetProjectStatusField) of
                       Inr mappings \<Rightarrow>
                         Settled (tr1, Returned (field_id sourceProjectStatusField,
                                                 status_id targetProjectStatusField, mappings))
                     | Inl e \<Rightarrow>
                         Retry (tr1 @ [ConsoleLog
                                         (if isFirstRun
                                          then StatusFirstRunInstructions targetProjectUrl
                                                 (map opt_name sourceOptions)
                                          else StatusRetryInstructions),
                                       Question])))))"

fun promptUntilStatusFieldsCorrelate ::
    "world \<Rightarrow> project \<Rightarrow> string \<Rightarrow> string \<Rightarrow> bool \<Rightarrow> nat \<Rightarrow> event list
      \<Rightarrow> (string \<times> string \<times> (string \<times> string) list) run" where
  "promptUntilStatusFieldsCorrelate w sourceProject targetProjectId targetProjectUrl isFirstRun
       acks tr =
     (case checkStatusFields w sourceProject targetProjectId targetProjectUrl isFirstRun tr of
        Settled r \<Rightarrow> r
      | Retry tr2 \<Rightarrow>
          (case acks of
             0 \<Rightarrow> (tr2, Waiting)
           | Suc n \<Rightarrow>
               promptUntilStatusFieldsCorrelate w sourceProject targetProjectId targetProjectUrl
                 False n tr2))"

subsection \<open>The action of the command\<close>

record arguments =
  accessToken :: "string option"
  baseUrl :: string
  disableTelemetry :: bool
  inputPath :: string
  projectOwner :: string
  ownerType :: projectOwnerType
  projectTitle :: "string option"
  proxyUrl :: "string option"
  repositoryMappingsPath :: string
  skipCertificateVerification :: bool
  skipUpdateCheck :: bool
  verbose :: bool

text \<open>The action from \<^verbatim>\<open>getGitHubProductInformation\<close> on, after the guard on the mappings.\<close>

definition migrate ::
    "world \<Rightarrow> arguments \<Rightarrow> project \<Rightarrow> projectItem list \<Rightarrow> (string \<times> string) list
      \<Rightarrow> event list \<Rightarrow> unit run" where
  "migrate w opts sourceProject sourceProjectItems repositoryMappings tr =
     andThen (request GetGitHubProductInformation (getGitHubProductInformation w tr) tr)
       (\<lambda>tr1 (gitHubEnterpriseServerVersion, isGitHubEnterpriseServer).
     if isGitHubEnterpriseServer \<and> lteMinimumSupportedVersion w gitHubEnterpriseServerVersion
     then (tr1, Threw (UnsupportedGitHubEnterpriseServerVersion gitHubEnterpriseServerVersion))
     else
     andThen (getOwnerGlobalId w (projectOwner opts) (ownerType opts)
                (if \<not> disableTelemetry opts then tr1 @ [PosthogCapture] else tr1))
       (\<lambda>tr2 ownerId.
     andThen (createProject w ownerId
                (case truthy (projectTitle opts) of
                   Some title \<Rightarrow> title | None \<Rightarrow> project_title sourceProject) tr2)
       (\<lambda>tr3 (targetProjectId, targetProjectUrl).
     andThen (linkRepositories w repositoryMappings targetProjectId
                (project_repositories sourceProject) tr3)
       (\<lambda>tr4 u.
     andThen (createCustomFields w targetProjectId
                (filter isCustomField (project_fields sourceProject)) [] tr4)
       (\<lambda>tr5 sourceToTargetCustomFieldMappings.
     andThen (promptUntilStatusFieldsCorrelate w sourceProject targetProjectId targetProjectUrl
                True (acknowledgements w) tr5)
       (\<lambda>tr6 (sourceProjectStatusFieldId, targetProjectStatusFieldId, mappings).
     andThen (replicateItems w repositoryMappings
                (AList.update sourceProjectStatusFieldId
                   \<lparr>targetId = targetProjectStatusFieldId, optionMappings = Some mappings\<rparr>
                   sourceToTargetCustomFieldMappings)
                targetProjectId sourceProjectItems tr6)
       (\<lambda>tr7 u.
          (tr7 @ [ConsoleLog (MigrationComplete targetProjectUrl), PosthogShutdown, ProcessExit],
           Returned ()))))))))"

text \<open>The warning about a proxy without \<^verbatim>\<open>--skip-certificate-verification\<close>.\<close>

definition startWarnings :: "arguments \<Rightarrow> event list" where
  "startWarnings opts =
     (if truthy (proxyUrl opts) \<noteq> None \<and> \<not> skipCertificateVerification opts
      then [Warn ProxyWithoutSkippedCertificateVerification] else [])"

definition importAction :: "world \<Rightarrow> arguments \<Rightarrow> unit run" where
  "importAction w opts =
     (let tr0 = startWarnings opts
      in
      if truthy (case truthy (accessToken opts) of
                   Some token \<Rightarrow> Some token | None \<Rightarrow> env_IMPORT_GITHUB_TOKEN w) = None
      then (tr0, Threw MissingAccessToken)
      else if \<not> existsSync w (inputPath opts)
      then (tr0, Threw (InputPathDoesNotExist (inputPath opts)))
      else if \<not> existsSync w (repositoryMappingsPath opts)
      then (tr0, Threw (RepositoryMappingsPathDoesNotExist (repositoryMappingsPath opts)))
      else
        andThen (request LogRateLimitInformation (logRateLimitInformation w tr0) tr0)
          (\<lambda>tr1 shouldCheckRateLimitAgain.
             case readSnapshot w (inputPath opts) of
               Inl msg \<Rightarrow> (tr1, Threw (Thrown msg))
             | Inr (sourceProject, sourceProjectItems) \<Rightarrow>
                 (case readRepositoryMappings (parseCsv w (repositoryMappingsPath opts)) of
                    Inl e \<Rightarrow> (tr1, Threw e)
                  | Inr repositoryMappings \<Rightarrow>
                      if getReferencedRepositories w sourceProjectItems \<noteq> []
                         \<and> length repositoryMappings = 0
                      then (tr1, Threw (NoRepositoryMappings (repositoryMappingsPath opts)))
                      else migrate w opts sourceProject sourceProjectItems repositoryMappings tr1)))"

subsection \<open>Notions used to state the properties\<close>

text \<open>
  The option that \<^verbatim>\<open>find\<close> returns for a source option, the two cells of a row, and
  what \<^verbatim>\<open>get\<close> answers once the rows have been read into a table.
\<close>

definition matchOf :: "fieldOption list \<Rightarrow> fieldOption \<Rightarrow> fieldOption" where
  "matchOf new x = the (find (\<lambda>option. opt_name option = opt_name x) new)"

definition sourceOf :: "row \<Rightarrow> string option" where
  "sourceOf row = map_of row ''source_repository''"

definition targetOf :: "row \<Rightarrow> string option" where
  "targetOf row = map_of row ''target_repository''"

definition lookupAfter :: "row list \<Rightarrow> (string \<times> string) list \<Rightarrow> string \<Rightarrow> string option" where
  "lookupAfter rows out k =
     (case find (\<lambda>row. sourceOf row = Some k) rows of
        None \<Rightarrow> map_of out k
      | Some row \<Rightarrow> (case truthy (targetOf row) of Some t \<Rightarrow> Some t | None \<Rightarrow> map_of out k))"

definition mkOption :: "string \<Rightarrow> string \<Rightarrow> fieldOption" where
  "mkOption i n = \<lparr>opt_id = i, opt_name = n, opt_color = None, opt_description = None\<rparr>"

definition mkRow :: "string \<Rightarrow> string \<Rightarrow> row" where
  "mkRow s t = [(''source_repository'', s), (''target_repository'', t)]"



definition isIssueOrPullRequest :: "projectItem \<Rightarrow> string \<Rightarrow> int \<Rightarrow> bool" where
  "isIssueOrPullRequest item repo n \<longleftrightarrow>
     (\<exists>title. item_content item = Issue repo n title \<or> item_content item = PullRequest repo n title)"

definition cannotResolve :: "string + (string \<times> string) option \<Rightarrow> bool" where
  "cannotResolve response =
     (case response of
        Inr found \<Rightarrow> found = None
      | Inl msg \<Rightarrow> str_includes msg ''Could not resolve to an issue or pull request'')"

subsection \<open>A small project and a world to run it in\<close>

text \<open>
  The snapshot of the examples: a Status field with two options, a text field, an issue
  of repository \<open>a/b\<close> and an archived draft issue. In the world of the examples every
  request succeeds, issue 5 exists in the target, and the Status field of the new
  project has three options until the operator has been asked once.
\<close>

definition exampleProject :: project where
  "exampleProject =
     \<lparr>project_title = ''Roadmap'',
      project_fields =
        [\<lparr>field_id = ''F0'', field_name = ''Status'', field_dataType = ''SINGLE_SELECT'',
          field_options = Some [mkOption ''s1'' ''Todo'', mkOption ''s2'' ''Done'']\<rparr>,
         \<lparr>field_id = ''F1'', field_name = ''Notes'', field_dataType = ''TEXT'',
          field_options = None\<rparr>],
      project_repositories = [''a/b'']\<rparr>"

definition textValue :: "string \<Rightarrow> string \<Rightarrow> string \<Rightarrow> fieldValue" where
  "textValue fid fname s =
     \<lparr>fv_typename = ''ProjectV2ItemFieldTextValue'', fv_field_id = fid, fv_field_name = fname,
      fv_date = None, fv_number = None, fv_text = Some s, fv_optionId = None\<rparr>"

definition selectValue :: "string \<Rightarrow> string \<Rightarrow> string \<Rightarrow> fieldValue" where
  "selectValue fid fname optionId =
     \<lparr>fv_typename = ''ProjectV2ItemFieldSingleSelectValue'', fv_field_id = fid,
      fv_field_name = fname, fv_date = None, fv_number = None, fv_text = None,
      fv_optionId = Some optionId\<rparr>"

definition issueItem :: projectItem where
  "issueItem =
     \<lparr>item_id = ''I1'', isArchived = False, item_content = Issue ''a/b'' 5 ''Bug'',
      fieldValues = [textValue ''F1'' ''Notes'' ''hi'']\<rparr>"

definition draftItem :: projectItem where
  "draftItem =
     \<lparr>item_id = ''I2'', isArchived = True,
      item_content = DraftIssue ''Idea'' ''hello'' (Some ''alice'') ''T'',
      fieldValues = []\<rparr>"

definition exampleWorld :: world where
  "exampleWorld =
     \<lparr>env_IMPORT_GITHUB_TOKEN = Some ''token'',
      existsSync = (\<lambda>path. True),
      readSnapshot = (\<lambda>path. Inr (exampleProject, [issueItem, draftItem])),
      parseCsv = (\<lambda>path. [Data (mkRow ''a/b'' ''c/d'')]),
      getReferencedRepositories = (\<lambda>items. [''a/b'']),
      logRateLimitInformation = (\<lambda>tr. Inr False),
      getGitHubProductInformation = (\<lambda>tr. Inr ([], False)),
      lteMinimumSupportedVersion = (\<lambda>version. False),
      acknowledgements = 1,
      gql_getOrganizationGlobalId = (\<lambda>tr login. Inr ''O1''),
      gql_getUserGlobalId = (\<lambda>tr login. Inr ''U1''),
      gql_createProject = (\<lambda>tr ownerId title. Inr (''P1'', ''https://example.test/p/1'')),
      gql_getGlobalIdForRepository = (\<lambda>tr owner name. Inr ''R1''),
      gql_addRepositoryToProject = (\<lambda>tr projectId repositoryId. Inr ()),
      gql_createProjectField =
        (\<lambda>tr projectId name dataType options.
           Inr \<lparr>created_id = ''T1'', created_name = name,
                created_options = map (\<lambda>option. mkOption ''t'' (so_name option)) options\<rparr>),
      gql_getProjectStatusField =
        (\<lambda>tr projectId.
           Inr \<lparr>status_id = ''TS'',
                status_options =
                  (if Question \<in> set tr
                   then [mkOption ''t1'' ''Todo'', mkOption ''t2'' ''Done'']
                   else [mkOption ''t1'' ''Todo'', mkOption ''t3'' ''In Progress'',
                         mkOption ''t2'' ''Done''])\<rparr>),
      gql_getGlobalIdForIssue =
        (\<lambda>tr owner name number.
           if number = 5 then Inr (Some (''C5'', ''Bug''))
           else Inl ''Could not resolve to an issue or pull request with the number of 7.''),
      gql_createProjectItem = (\<lambda>tr projectId contentId. Inr ''N1''),
      gql_addDraftIssueToProject = (\<lambda>tr title body projectId. Inr ''N2''),
      gql_archiveProjectItem = (\<lambda>tr projectId itemId. Inr ()),
      gql_updateProjectItemFieldValue = (\<lambda>tr projectId itemId fieldId v. Inr ())\<rparr>"

definition exampleArguments :: arguments where
  "exampleArguments =
     \<lparr>accessToken = None, baseUrl = ''https://api.github.com'', disableTelemetry = True,
      inputPath = ''project.json'', projectOwner = ''acme'', ownerType = Organization,
      projectTitle = None, proxyUrl = None, repositoryMappingsPath = ''repository-mappings.csv'',
      skipCertificateVerification = False, skipUpdateCheck = True, verbose = False\<rparr>"

section \<open>Properties\<close>

subsection \<open>Option correlation\<close>

lemma update_fresh: "k \<notin> fst ` set al \<Longrightarrow> AList.update k v al = al @ [(k, v)]"
  by (induction al) auto

lemma dom_correlateLoop:
  "fst ` set (correlateLoop old new m) =
     fst ` set m \<union> opt_id ` {x \<in> set old. \<exists>n\<in>set new. opt_name n = opt_name x}"
proof (induction old arbitrary: m)
  case Nil
  then show ?case by simp
next
  case (Cons x old)
  show ?case
  proof (cases "find (\<lambda>option. opt_name option = opt_name x) new")
    case None
    then have "\<not> (\<exists>n\<in>set new. opt_name n = opt_name x)"
      by (simp add: find_None_iff)
    with None Cons show ?thesis by auto
  next
    case (Some n)
    then have "\<exists>n\<in>set new. opt_name n = opt_name x"
      by (auto simp: find_Some_iff)
    with Some Cons show ?thesis by (auto simp: dom_update)
  qed
qed

text \<open>
  What the function does for every input: it throws, and then the option-count error,
  exactly when the two lists differ in length; for lists of equal length it returns a
  map whose keys are the identifiers of the source options that have a target option
  of the same name.
\<close>

lemma correlate_fails_only_on_length:
  "(correlateCustomFieldOptions old new = Inl OptionCountMismatch \<longleftrightarrow> length old \<noteq> length new) \<and>
   (isl (correlateCustomFieldOptions old new) \<longleftrightarrow> length old \<noteq> length new) \<and>
   (length old = length new \<longrightarrow>
      (\<exists>m. correlateCustomFieldOptions old new = Inr m \<and>
         fst ` set m = opt_id ` {x \<in> set old. \<exists>n\<in>set new. opt_name n = opt_name x}))"
  by (simp add: correlateCustomFieldOptions_def dom_correlateLoop)

text \<open>
  C1. The function at two lists of equal length in which the source name has no match:
  one source option named Todo, one target option named Done. The test of the lengths
  passes, \<^verbatim>\<open>find\<close> returns \<^verbatim>\<open>undefined\<close>, the entry is skipped, and the function
  returns the empty map where a mismatch of the names was to be reported. The Status
  protocol relies on this function to tell whether the operator has configured exactly
  the options of the source (lemma \<open>status_accepts_other_names\<close>).
\<close>

theorem correlate_unmatched_name_is_accepted:
  "correlateCustomFieldOptions [mkOption ''a'' ''Todo''] [mkOption ''1'' ''Done''] = Inr []"
  by (simp add: correlateCustomFieldOptions_def mkOption_def)

lemma find_name:
  assumes "opt_name x \<in> opt_name ` set new"
  shows "\<exists>n. find (\<lambda>option. opt_name option = opt_name x) new = Some n \<and> n \<in> set new
    \<and> opt_name n = opt_name x"
proof (cases "find (\<lambda>option. opt_name option = opt_name x) new")
  case None
  with assms show ?thesis by (auto simp: find_None_iff)
next
  case (Some n)
  then show ?thesis by (auto simp: find_Some_iff)
qed

lemma matchOf_props:
  assumes "opt_name x \<in> opt_name ` set new"
  shows "find (\<lambda>option. opt_name option = opt_name x) new = Some (matchOf new x)"
    and "matchOf new x \<in> set new" and "opt_name (matchOf new x) = opt_name x"
  using find_name[OF assms] by (auto simp: matchOf_def)

lemma correlateLoop_total:
  assumes "\<forall>x\<in>set old. opt_name x \<in> opt_name ` set new"
    and "distinct (map opt_id old)"
    and "fst ` set m \<inter> opt_id ` set old = {}"
  shows "correlateLoop old new m = m @ map (\<lambda>x. (opt_id x, opt_id (matchOf new x))) old"
  using assms
proof (induction old arbitrary: m)
  case Nil
  then show ?case by simp
next
  case (Cons x old)
  have f: "find (\<lambda>option. opt_name option = opt_name x) new = Some (matchOf new x)"
    using Cons.prems(1) by (simp add: matchOf_props(1))
  have fresh: "opt_id x \<notin> fst ` set m"
    using Cons.prems(3) by auto
  have upd: "AList.update (opt_id x) (opt_id (matchOf new x)) m
      = m @ [(opt_id x, opt_id (matchOf new x))]"
    using fresh by (rule update_fresh)
  have disj: "fst ` set (m @ [(opt_id x, opt_id (matchOf new x))]) \<inter> opt_id ` set old = {}"
    using Cons.prems(2,3) by auto
  have "correlateLoop old new (m @ [(opt_id x, opt_id (matchOf new x))]) =
      (m @ [(opt_id x, opt_id (matchOf new x))]) @ map (\<lambda>x. (opt_id x, opt_id (matchOf new x))) old"
    using Cons.prems(1,2) disj by (intro Cons.IH) auto
  then show ?case by (simp add: f upd)
qed

lemma matchOf_onto:
  assumes len: "length old = length new"
    and names: "\<forall>x\<in>set old. opt_name x \<in> opt_name ` set new"
    and dn: "distinct (map opt_name old)"
  shows "inj_on (matchOf new) (set old)" and "matchOf new ` set old = set new"
proof -
  show inj: "inj_on (matchOf new) (set old)"
  proof (rule inj_onI)
    fix x y assume x: "x \<in> set old" and y: "y \<in> set old" and eq: "matchOf new x = matchOf new y"
    have "opt_name x = opt_name (matchOf new x)" using names x by (simp add: matchOf_props(3))
    also have "\<dots> = opt_name y" using names y eq by (simp add: matchOf_props(3))
    finally show "x = y" using dn x y by (simp add: distinct_map inj_on_def)
  qed
  have sub: "matchOf new ` set old \<subseteq> set new"
    using names by (auto simp: matchOf_props(2))
  have "distinct old" using dn by (simp add: distinct_map)
  then have "card (set old) = length old" by (rule distinct_card)
  then have "card (matchOf new ` set old) = length new"
    using inj len by (simp add: card_image)
  moreover have "card (set new) \<le> length new" by (rule card_length)
  ultimately have "card (set new) \<le> card (matchOf new ` set old)" by simp
  with sub show "matchOf new ` set old = set new"
    by (intro card_seteq) auto
qed

lemma alist_bij:
  assumes "distinct (map fst m)" and "distinct (map snd m)"
  shows "bij_betw (\<lambda>k. the (map_of m k)) (fst ` set m) (snd ` set m)"
proof -
  have val: "\<And>p. p \<in> set m \<Longrightarrow> the (map_of m (fst p)) = snd p"
    using assms(1) by auto
  have "inj_on (\<lambda>k. the (map_of m k)) (fst ` set m)"
  proof (rule inj_onI)
    fix a b
    assume "a \<in> fst ` set m" "b \<in> fst ` set m"
      and eq: "the (map_of m a) = the (map_of m b)"
    then obtain p q where p: "p \<in> set m" "a = fst p" and q: "q \<in> set m" "b = fst q" by auto
    then have "snd p = snd q" using eq val by simp
    then have "p = q" using assms(2) p(1) q(1) by (simp add: distinct_map inj_on_def)
    then show "a = b" using p q by simp
  qed
  moreover have "(\<lambda>k. the (map_of m k)) ` (fst ` set m) = snd ` set m"
    using val by (force simp: image_iff)
  ultimately show ?thesis by (simp add: bij_betw_def)
qed

text \<open>
  C2 (as amended). Lists of different lengths never correlate, whatever the names. For
  lists of equal length in which every source name is a target name, and in which the
  source names, the source identifiers and the target identifiers are each free of
  repetitions, the correlation has an entry for every source identifier and is a
  bijection from the source identifiers onto the target identifiers that pairs options
  of the same name.
\<close>

theorem correlate_bijection:
  "(length old \<noteq> length new \<longrightarrow> correlateCustomFieldOptions old new = Inl OptionCountMismatch) \<and>
   (length old = length new \<and> (\<forall>x\<in>set old. opt_name x \<in> opt_name ` set new) \<and>
    distinct (map opt_name old) \<and> distinct (map opt_id old) \<and> distinct (map opt_id new) \<longrightarrow>
    (\<exists>m. correlateCustomFieldOptions old new = Inr m \<and>
       dom (map_of m) = opt_id ` set old \<and>
       bij_betw (\<lambda>k. the (map_of m k)) (opt_id ` set old) (opt_id ` set new) \<and>
       (\<forall>x\<in>set old. \<exists>n\<in>set new. opt_name n = opt_name x
          \<and> map_of m (opt_id x) = Some (opt_id n))))"
proof (intro conjI impI)
  assume "length old \<noteq> length new"
  then show "correlateCustomFieldOptions old new = Inl OptionCountMismatch"
    by (simp add: correlateCustomFieldOptions_def)
next
  assume h: "length old = length new \<and> (\<forall>x\<in>set old. opt_name x \<in> opt_name ` set new) \<and>
    distinct (map opt_name old) \<and> distinct (map opt_id old) \<and> distinct (map opt_id new)"
  define m where "m = map (\<lambda>x. (opt_id x, opt_id (matchOf new x))) old"
  have res: "correlateCustomFieldOptions old new = Inr m"
    using h correlateLoop_total[of old new "[]"] by (simp add: correlateCustomFieldOptions_def m_def)
  have fst_m: "map fst m = map opt_id old" by (simp add: m_def comp_def)
  have snd_m: "map snd m = map (opt_id \<circ> matchOf new) old" by (simp add: m_def comp_def)
  have inj: "inj_on (matchOf new) (set old)" and onto: "matchOf new ` set old = set new"
    using h matchOf_onto[of old new] by auto
  have inj_id: "inj_on opt_id (set new)" using h by (simp add: distinct_map)
  have "inj_on (opt_id \<circ> matchOf new) (set old)"
    using inj inj_id onto by (intro comp_inj_on) auto
  moreover have "distinct old" using h by (simp add: distinct_map)
  ultimately have d_snd: "distinct (map snd m)" by (simp add: snd_m distinct_map)
  have d_fst: "distinct (map fst m)" using h by (simp add: fst_m)
  have set_fst: "fst ` set m = opt_id ` set old" using fst_m by (metis list.set_map)
  have "snd ` set m = (opt_id \<circ> matchOf new) ` set old" using snd_m by (metis list.set_map)
  also have "\<dots> = opt_id ` (matchOf new ` set old)" by (rule image_comp[symmetric])
  finally have set_snd: "snd ` set m = opt_id ` set new" using onto by simp
  have bij: "bij_betw (\<lambda>k. the (map_of m k)) (opt_id ` set old) (opt_id ` set new)"
    using alist_bij[OF d_fst d_snd] by (simp add: set_fst set_snd)
  have dom: "dom (map_of m) = opt_id ` set old" by (simp add: dom_map_of_conv_image_fst set_fst)
  have each: "\<forall>x\<in>set old. \<exists>n\<in>set new. opt_name n = opt_name x
      \<and> map_of m (opt_id x) = Some (opt_id n)"
  proof
    fix x assume x: "x \<in> set old"
    have "(opt_id x, opt_id (matchOf new x)) \<in> set m" using x by (auto simp: m_def)
    then have "map_of m (opt_id x) = Some (opt_id (matchOf new x))" using d_fst by simp
    moreover have "matchOf new x \<in> set new" "opt_name (matchOf new x) = opt_name x"
      using h x by (simp_all add: matchOf_props)
    ultimately show "\<exists>n\<in>set new. opt_name n = opt_name x
        \<and> map_of m (opt_id x) = Some (opt_id n)"
      by blast
  qed
  show "\<exists>m. correlateCustomFieldOptions old new = Inr m \<and>
       dom (map_of m) = opt_id ` set old \<and>
       bij_betw (\<lambda>k. the (map_of m k)) (opt_id ` set old) (opt_id ` set new) \<and>
       (\<forall>x\<in>set old. \<exists>n\<in>set new. opt_name n = opt_name x
          \<and> map_of m (opt_id x) = Some (opt_id n))"
    using res dom bij each by blast
qed

theorem correlate_bijection_witness:
  "correlateCustomFieldOptions [mkOption ''a'' ''Todo'', mkOption ''b'' ''Done'']
     [mkOption ''1'' ''Done'', mkOption ''2'' ''Todo''] = Inr [(''a'', ''2''), (''b'', ''1'')] \<and>
   bij_betw (\<lambda>k. the (map_of [(''a'', ''2''), (''b'', ''1'')] k)) {''a'', ''b''} {''1'', ''2''} \<and>
   correlateCustomFieldOptions [mkOption ''a'' ''Todo'', mkOption ''b'' ''Done'']
     [mkOption ''1'' ''Done''] = Inl OptionCountMismatch"
  using correlate_bijection
    [of "[mkOption ''a'' ''Todo'', mkOption ''b'' ''Done'']"
        "[mkOption ''1'' ''Done'', mkOption ''2'' ''Todo'']"]
    correlate_bijection
    [of "[mkOption ''a'' ''Todo'', mkOption ''b'' ''Done'']" "[mkOption ''1'' ''Done'']"]
  by (simp add: correlateCustomFieldOptions_def mkOption_def)

text \<open>
  The claim as stated fails: two source options share the name Todo, the lists have
  equal length and every source name is a target name, yet both source identifiers are
  sent to the target identifier 1 and nothing is sent to 2.
\<close>

theorem correlate_not_injective_counterexample:
  "correlateCustomFieldOptions [mkOption ''a'' ''Todo'', mkOption ''b'' ''Todo'']
     [mkOption ''1'' ''Todo'', mkOption ''2'' ''Done''] = Inr [(''a'', ''1''), (''b'', ''1'')]"
  by (simp add: correlateCustomFieldOptions_def mkOption_def)

subsection \<open>The repository mapping table\<close>

lemma hasMappingHeaders_cells:
  assumes "hasMappingHeaders row"
  shows "\<exists>s t. map_of row ''source_repository'' = Some s
    \<and> map_of row ''target_repository'' = Some t"
proof -
  have "''source_repository'' \<in> fst ` set row" "''target_repository'' \<in> fst ` set row"
    using assms by (simp_all add: hasMappingHeaders_def rowHeaders_def)
  then show ?thesis
    by (metis map_of_eq_None_iff not_Some_eq)
qed

lemma onEvents_rejected:
  "snd st \<noteq> None \<Longrightarrow> snd (onEvents events st) \<noteq> None"
proof (induction events arbitrary: st)
  case Nil
  then show ?case by simp
next
  case (Cons ev events)
  show ?case
  proof (cases ev)
    case (Data row)
    have "snd (onData row st) \<noteq> None"
      using Cons.prems by (cases st) (auto simp: onData_def reject_def split: option.splits)
    then show ?thesis using Data Cons.IH by simp
  next
    case (ParseError msg)
    have "snd (fst st, reject (Thrown msg) (snd st)) \<noteq> None"
      using Cons.prems by (auto simp: reject_def split: option.splits)
    then show ?thesis using ParseError Cons.IH by simp
  qed
qed

lemma onEvents_bad_row:
  assumes "Data row \<in> set events" and "\<not> hasMappingHeaders row"
  shows "snd (onEvents events st) \<noteq> None"
  using assms(1)
proof (induction events arbitrary: st)
  case Nil
  then show ?case by simp
next
  case (Cons ev events)
  show ?case
  proof (cases "ev = Data row")
    case True
    have "snd (onData row st) \<noteq> None"
      using assms(2) by (cases st) (auto simp: onData_def reject_def split: option.splits)
    then show ?thesis using True by (simp add: onEvents_rejected)
  next
    case False
    then have "Data row \<in> set events" using Cons.prems by simp
    then show ?thesis using Cons.IH by (cases ev) simp_all
  qed
qed

text \<open>
  With at least one data row, wrong headers are refused: a row whose keys are not the
  two names makes the load fail, wherever it stands and whatever the cells hold.
\<close>

lemma readRepositoryMappings_bad_row:
  assumes "Data row \<in> set events" and "\<not> hasMappingHeaders row"
  shows "\<exists>e. readRepositoryMappings events = Inl e"
  using onEvents_bad_row[OF assms, of "([], None)"]
  by (auto simp: readRepositoryMappings_def split: prod.splits option.splits)

lemma readRepositoryMappings_first_bad_row:
  assumes "\<not> hasMappingHeaders row"
  shows "readRepositoryMappings (Data row # events) = Inl InvalidRepositoryMappingsCsv"
proof -
  have step: "onData row ([], None) = ([], Some InvalidRepositoryMappingsCsv)"
    using assms by (simp add: onData_def reject_def)
  have keep: "\<And>st. snd st = Some InvalidRepositoryMappingsCsv \<Longrightarrow>
      snd (onEvents events st) = Some InvalidRepositoryMappingsCsv"
  proof (induction events)
    case Nil
    then show ?case by simp
  next
    case (Cons ev events)
    show ?case
    proof (cases ev)
      case (Data r)
      have "snd (onData r st) = Some InvalidRepositoryMappingsCsv"
        using Cons.prems by (cases st) (auto simp: onData_def reject_def split: option.splits)
      then show ?thesis using Data Cons.IH by simp
    next
      case (ParseError msg)
      then show ?thesis using Cons.prems Cons.IH by (simp add: reject_def)
    qed
  qed
  have "snd (onEvents events ([], Some InvalidRepositoryMappingsCsv))
      = Some InvalidRepositoryMappingsCsv"
    by (rule keep) simp
  then show ?thesis
    by (auto simp: readRepositoryMappings_def step split: prod.splits option.splits)
qed

text \<open>
  C3. The headers are only looked at in the \<^verbatim>\<open>data\<close> handler. A file that holds a header
  line and no data row makes the parser emit no \<^verbatim>\<open>data\<close> event, so nothing is checked:
  the load resolves with the empty table, whatever the header line was.
\<close>

theorem readRepositoryMappings_no_data_rows:
  "readRepositoryMappings [] = Inr []"
  by (simp add: readRepositoryMappings_def)

lemma onData_valid:
  assumes "hasMappingHeaders row"
  shows "\<exists>out'. onData row (out, rej) = (out', rej) \<and>
     (\<forall>k. map_of out' k =
        (if sourceOf row = Some k \<and> truthy (targetOf row) \<noteq> None then truthy (targetOf row)
         else map_of out k))"
proof -
  obtain s t where st: "map_of row ''source_repository'' = Some s"
      "map_of row ''target_repository'' = Some t"
    using hasMappingHeaders_cells[OF assms] by blast
  show ?thesis
    using assms st by (auto simp: onData_def sourceOf_def targetOf_def update_conv')
qed

lemma onEvents_valid:
  assumes "\<forall>row\<in>set rows. hasMappingHeaders row"
    and "distinct (map sourceOf rows)"
  shows "\<exists>out'. onEvents (map Data rows) (out, rej) = (out', rej) \<and>
     (\<forall>k. map_of out' k = lookupAfter rows out k)"
  using assms
proof (induction rows arbitrary: out)
  case Nil
  then show ?case by (simp add: lookupAfter_def)
next
  case (Cons row rows)
  obtain out1 where o1: "onData row (out, rej) = (out1, rej)"
    and m1: "\<And>k. map_of out1 k =
        (if sourceOf row = Some k \<and> truthy (targetOf row) \<noteq> None then truthy (targetOf row)
         else map_of out k)"
    using onData_valid[of row out rej] Cons.prems(1) by auto
  obtain out2 where o2: "onEvents (map Data rows) (out1, rej) = (out2, rej)"
    and m2: "\<And>k. map_of out2 k = lookupAfter rows out1 k"
    using Cons.IH[of out1] Cons.prems by auto
  have "map_of out2 k = lookupAfter (row # rows) out k" for k
  proof (cases "sourceOf row = Some k")
    case True
    then have "Some k \<notin> sourceOf ` set rows" using Cons.prems(2) by auto
    then have "\<forall>r\<in>set rows. sourceOf r \<noteq> Some k" by (metis image_eqI)
    then have "find (\<lambda>r. sourceOf r = Some k) rows = None"
      by (simp add: find_None_iff)
    then have "map_of out2 k = map_of out1 k" by (simp add: m2 lookupAfter_def)
    then show ?thesis using True by (auto simp: m1 lookupAfter_def split: option.splits)
  next
    case False
    then show ?thesis by (simp add: m2 m1 lookupAfter_def split: option.splits)
  qed
  then show ?case using o1 o2 by simp
qed

text \<open>
  C8. A valid table: every row has exactly the two headers and no source name stands in
  two rows (the keys of the table are unique). Loading it succeeds, and
  \<^verbatim>\<open>repositoryMappings.get\<close> (\<^const>\<open>map_of\<close> of the table) returns the target of every
  row whose target is not empty, nothing for every row whose target is empty, and
  nothing for a name that is no row's source; no entry of the table is the empty
  string.
\<close>

theorem lookup_valid_table:
  assumes valid: "\<forall>row\<in>set rows. hasMappingHeaders row"
    and uniq: "distinct (map (\<lambda>row. map_of row ''source_repository'') rows)"
  shows "\<exists>table. readRepositoryMappings (map Data rows) = Inr table \<and>
     (\<forall>row\<in>set rows. \<forall>s t. map_of row ''source_repository'' = Some s \<longrightarrow>
        map_of row ''target_repository'' = Some t \<longrightarrow>
        map_of table s = (if t = [] then None else Some t)) \<and>
     (\<forall>k. Some k \<notin> (\<lambda>row. map_of row ''source_repository'') ` set rows
        \<longrightarrow> map_of table k = None) \<and>
     (\<forall>k. map_of table k \<noteq> Some [])"
proof -
  have uniq': "distinct (map sourceOf rows)"
    using uniq by (simp add: sourceOf_def[abs_def])
  obtain table where run: "onEvents (map Data rows) ([], None) = (table, None)"
    and look: "\<And>k. map_of table k = lookupAfter rows [] k"
    using onEvents_valid[OF valid uniq', of "[]" None] by auto
  have res: "readRepositoryMappings (map Data rows) = Inr table"
    by (simp add: readRepositoryMappings_def run)
  have rowsP: "map_of table s = (if t = [] then None else Some t)"
    if "row \<in> set rows" "map_of row ''source_repository'' = Some s"
      "map_of row ''target_repository'' = Some t" for row s t
  proof -
    have "\<exists>r. find (\<lambda>r. sourceOf r = Some s) rows = Some r \<and> r \<in> set rows
        \<and> sourceOf r = Some s"
      using that(1,2)
      by (cases "find (\<lambda>r. sourceOf r = Some s) rows")
         (auto simp: find_None_iff find_Some_iff sourceOf_def)
    then obtain r where r: "find (\<lambda>r. sourceOf r = Some s) rows = Some r" "r \<in> set rows"
      "sourceOf r = Some s" by blast
    have "inj_on sourceOf (set rows)" using uniq' by (simp add: distinct_map)
    then have "r = row" using r(2,3) that(1,2) by (auto simp: inj_on_def sourceOf_def)
    then show ?thesis using r(1) that(3) by (simp add: look lookupAfter_def targetOf_def)
  qed
  have absent: "map_of table k = None"
    if "Some k \<notin> (\<lambda>row. map_of row ''source_repository'') ` set rows" for k
  proof -
    have "sourceOf r \<noteq> Some k" if r: "r \<in> set rows" for r
    proof
      assume "sourceOf r = Some k"
      then have "Some k = (\<lambda>row. map_of row ''source_repository'') r"
        by (simp add: sourceOf_def)
      then have "Some k \<in> (\<lambda>row. map_of row ''source_repository'') ` set rows"
        using r by (rule image_eqI)
      with \<open>Some k \<notin> (\<lambda>row. map_of row ''source_repository'') ` set rows\<close>
      show False by simp
    qed
    then have "find (\<lambda>r. sourceOf r = Some k) rows = None"
      by (simp add: find_None_iff)
    then show ?thesis by (simp add: look lookupAfter_def)
  qed
  have nonempty: "map_of table k \<noteq> Some []" for k
  proof -
    have "truthy x \<noteq> Some []" for x by (cases x) auto
    then show ?thesis
      by (auto simp: look lookupAfter_def split: option.splits)
  qed
  show ?thesis using res rowsP absent nonempty by blast
qed

theorem lookup_valid_table_witness:
  "readRepositoryMappings (map Data [mkRow ''a/b'' ''c/d'', mkRow ''e/f'' '''']) =
     Inr [(''a/b'', ''c/d'')] \<and>
   map_of [(''a/b'', ''c/d'')] ''a/b'' = Some ''c/d'' \<and>
   map_of [(''a/b'', ''c/d'')] ''e/f'' = None \<and>
   map_of [(''a/b'', ''c/d'')] ''x/y'' = None"
  using lookup_valid_table [of "[mkRow ''a/b'' ''c/d'', mkRow ''e/f'' '''']"]
  by (simp add: readRepositoryMappings_def onData_def hasMappingHeaders_def rowHeaders_def
      mkRow_def)

subsection \<open>Runs and their traces\<close>

declare promptUntilStatusFieldsCorrelate.simps [simp del]

lemmas run_defs = andThen_def request_def createProjectItem_def
  createProjectItemReferencingIssueOrPullRequest_def createProjectItemReferencingDraftIssue_def
  addDraftIssueToProject_def addItemToProject_def getIssueOrPullRequestByRepositoryAndNumber_def
  archiveProjectItem_def updateProjectItemFieldValue_def setFieldValue_def replicateItem_def
  afterCreation_def draftIssueBody_def fieldValuePayload_def isProjectItemCustomFieldValue_def

lemmas example_defs = exampleWorld_def exampleProject_def issueItem_def draftItem_def
  textValue_def selectValue_def mkOption_def mkRow_def exampleArguments_def

lemma request_fst [simp]: "fst (request ev response tr) = tr @ [ev]"
  by (simp add: request_def)

lemma andThen_Returned [simp]: "andThen (tr, Returned v) k = k tr v"
  by (simp add: andThen_def)

lemma andThen_Threw [simp]: "andThen (tr, Threw e) k = (tr, Threw e)"
  by (simp add: andThen_def)

lemma andThen_Waiting [simp]: "andThen (tr, Waiting) k = (tr, Waiting)"
  by (simp add: andThen_def)


subsection \<open>The draft issue body\<close>

text \<open>
  C5 (as amended). For a draft issue with creator login \<open>c\<close>, creation timestamp \<open>t\<close> and
  original body \<open>b\<close>, the body sent with the request that creates the draft item is the
  attribution line in Markdown, two asterisks, \<open>Created by\<close>, the login after an at sign
  between backquotes, \<open>on\<close>, the timestamp and two asterisks, followed by a blank line
  and \<open>b\<close>.
\<close>

theorem draft_issue_body:
  "fst (createProjectItem w rm pid
      \<lparr>item_id = i, isArchived = a, item_content = DraftIssue title b (Some c) t,
       fieldValues = fvs\<rparr> tr)
   = tr @ [AddDraftIssueToProject title
             (''**Created by `@'' @ c @ ''` on '' @ t @ ''**\<newline>\<newline>'' @ b) pid]"
  by (simp add: createProjectItem_def createProjectItemReferencingDraftIssue_def
      addDraftIssueToProject_def draftIssueBody_def)

text \<open>
  The claim as stated fails: for creator alice, timestamp T and body hello the body
  sent is not the plain line of the claim.
\<close>

theorem draft_issue_body_counterexample:
  "fst (createProjectItem exampleWorld [] ''P1'' draftItem []) =
     [AddDraftIssueToProject ''Idea'' ''**Created by `@alice` on T**\<newline>\<newline>hello'' ''P1''] \<and>
   ''**Created by `@alice` on T**\<newline>\<newline>hello'' \<noteq> ''Created by @alice on T\<newline>\<newline>hello''"
  by (simp add: run_defs example_defs)

subsection \<open>The value payload\<close>

text \<open>
  C6. A field value whose field has a correlation entry is replayed by one update
  request, and the run goes on or stops as that request does. For a value of kind TEXT,
  NUMBER or DATE the payload of the request has exactly the matching member populated,
  with the value of the snapshot. For a SINGLE_SELECT value whose option identifier has
  no entry in the option correlation of the field, the payload has no member
  populated, and the request is sent all the same: nothing is thrown before it.
\<close>

theorem replayed_payload:
  assumes "map_of fieldMappings (fv_field_id field) = Some fm"
  shows "\<exists>v. setFieldValue w pid iid fieldMappings field tr =
         request (UpdateProjectItemFieldValue pid iid (targetId fm) v)
           (gql_updateProjectItemFieldValue w tr pid iid (targetId fm) v) tr \<and>
     (hasKind TEXT field \<longrightarrow> populated v = {TEXT} \<and> v_text v = fv_text field) \<and>
     (hasKind NUMBER field \<longrightarrow> populated v = {NUMBER} \<and> v_number v = fv_number field) \<and>
     (hasKind DATE field \<longrightarrow> populated v = {DATE} \<and> v_date v = fv_date field) \<and>
     (hasKind SINGLE_SELECT field \<and>
        (\<exists>m. optionMappings fm = Some m \<and>
           (\<forall>optionId. fv_optionId field = Some optionId \<longrightarrow> map_of m optionId = None))
        \<longrightarrow> populated v = {})"
proof -
  let ?v = "fieldValuePayload (optionMappings fm) field"
  have run: "setFieldValue w pid iid fieldMappings field tr =
         request (UpdateProjectItemFieldValue pid iid (targetId fm) ?v)
           (gql_updateProjectItemFieldValue w tr pid iid (targetId fm) ?v) tr"
    using assms by (simp add: setFieldValue_def updateProjectItemFieldValue_def)
  have t: "populated ?v = {TEXT} \<and> v_text ?v = fv_text field" if "hasKind TEXT field"
    using that by (auto simp: hasKind_def populated_def fieldValuePayload_def)
  have n: "populated ?v = {NUMBER} \<and> v_number ?v = fv_number field" if "hasKind NUMBER field"
    using that by (auto simp: hasKind_def populated_def fieldValuePayload_def)
  have d: "populated ?v = {DATE} \<and> v_date ?v = fv_date field" if "hasKind DATE field"
    using that by (auto simp: hasKind_def populated_def fieldValuePayload_def)
  have s: "populated ?v = {}" if "hasKind SINGLE_SELECT field"
    and "\<exists>m. optionMappings fm = Some m \<and>
           (\<forall>optionId. fv_optionId field = Some optionId \<longrightarrow> map_of m optionId = None)"
    using that
    by (cases "fv_optionId field")
       (auto simp: hasKind_def populated_def fieldValuePayload_def split: option.splits if_splits)
  show ?thesis using run t n d s by blast
qed

theorem replayed_payload_witness:
  "hasKind TEXT (textValue ''F1'' ''Notes'' ''hi'') \<and>
   setFieldValue exampleWorld ''P1'' ''N1''
     [(''F1'', \<lparr>targetId = ''T1'', optionMappings = None\<rparr>),
      (''F2'', \<lparr>targetId = ''T2'', optionMappings = Some [(''o1'', ''n1'')]\<rparr>)]
     (textValue ''F1'' ''Notes'' ''hi'') [] =
     ([UpdateProjectItemFieldValue ''P1'' ''N1'' ''T1''
         \<lparr>v_date = None, v_number = None, v_singleSelectOptionId = None,
          v_text = Some ''hi''\<rparr>], Returned ()) \<and>
   hasKind SINGLE_SELECT (selectValue ''F2'' ''Priority'' ''o9'') \<and>
   setFieldValue exampleWorld ''P1'' ''N1''
     [(''F1'', \<lparr>targetId = ''T1'', optionMappings = None\<rparr>),
      (''F2'', \<lparr>targetId = ''T2'', optionMappings = Some [(''o1'', ''n1'')]\<rparr>)]
     (selectValue ''F2'' ''Priority'' ''o9'') [] =
     ([UpdateProjectItemFieldValue ''P1'' ''N1'' ''T2''
         \<lparr>v_date = None, v_number = None, v_singleSelectOptionId = None,
          v_text = None\<rparr>], Returned ())"
  using replayed_payload
    [of "[(''F1'', \<lparr>targetId = ''T1'', optionMappings = None\<rparr>),
          (''F2'', \<lparr>targetId = ''T2'', optionMappings = Some [(''o1'', ''n1'')]\<rparr>)]"
        "textValue ''F1'' ''Notes'' ''hi''" "\<lparr>targetId = ''T1'', optionMappings = None\<rparr>"
        exampleWorld "''P1''" "''N1''" "[]"]
    replayed_payload
    [of "[(''F1'', \<lparr>targetId = ''T1'', optionMappings = None\<rparr>),
          (''F2'', \<lparr>targetId = ''T2'', optionMappings = Some [(''o1'', ''n1'')]\<rparr>)]"
        "selectValue ''F2'' ''Priority'' ''o9''"
        "\<lparr>targetId = ''T2'', optionMappings = Some [(''o1'', ''n1'')]\<rparr>"
        exampleWorld "''P1''" "''N1''" "[]"]
  by (simp add: run_defs example_defs hasKind_def)

subsection \<open>Archiving\<close>









subsection \<open>Items that cannot be resolved\<close>

lemma skip_unmapped:
  assumes "isIssueOrPullRequest item repo n" and "truthy (map_of rm repo) = None"
  shows "createProjectItem w rm pid item tr =
     (tr @ [Warn (NoRepositoryMappingForItem (item_id item) repo)], Returned None)"
  using assms
  by (auto simp: isIssueOrPullRequest_def createProjectItem_def
      createProjectItemReferencingIssueOrPullRequest_def)

lemma skip_unresolved:
  assumes "isIssueOrPullRequest item repo n" and "truthy (map_of rm repo) = Some dest"
    and "firstTwo (split CHR ''/'' dest) = (owner, name)"
    and "cannotResolve (gql_getGlobalIdForIssue w tr owner name n)"
  shows "createProjectItem w rm pid item tr =
     (tr @ [GetIssueOrPullRequest owner name n,
            Warn (IssueOrPullRequestDoesNotExist (item_id item) dest n)], Returned None)"
proof -
  have "getIssueOrPullRequestByRepositoryAndNumber w owner name n tr =
      (tr @ [GetIssueOrPullRequest owner name n], Returned None)"
    using assms(4)
    by (auto simp: getIssueOrPullRequestByRepositoryAndNumber_def cannotResolve_def
        split: sum.splits)
  then show ?thesis using assms(1,2,3)
    by (auto simp: isIssueOrPullRequest_def createProjectItem_def
        createProjectItemReferencingIssueOrPullRequest_def)
qed

text \<open>
  C9. Let the item at the head of the loop refer to issue or pull request \<open>n\<close> of the
  source repository \<open>repo\<close>. If the mapping table has no entry for \<open>repo\<close>, the loop adds
  one warning to the trace and goes on with the remaining items. If the table maps
  \<open>repo\<close> to \<open>dest\<close> and the target answers the lookup of number \<open>n\<close> with \<^verbatim>\<open>null\<close> or
  with the error "Could not resolve to an issue or pull request", the loop adds the
  lookup and one warning and goes on with the remaining items. In both cases no request
  that creates an item is made for this item, and the run neither throws nor stops here.
\<close>

theorem unresolved_item_is_skipped:
  assumes "isIssueOrPullRequest item repo n"
  shows "(map_of rm repo = None \<longrightarrow>
      replicateItems w rm fm pid (item # items) tr =
        replicateItems w rm fm pid items
          (tr @ [Warn (NoRepositoryMappingForItem (item_id item) repo)])) \<and>
     (\<forall>dest owner name.
        map_of rm repo = Some dest \<and> dest \<noteq> [] \<and>
        firstTwo (split CHR ''/'' dest) = (owner, name) \<and>
        cannotResolve (gql_getGlobalIdForIssue w tr owner name n) \<longrightarrow>
        replicateItems w rm fm pid (item # items) tr =
          replicateItems w rm fm pid items
            (tr @ [GetIssueOrPullRequest owner name n,
                   Warn (IssueOrPullRequestDoesNotExist (item_id item) dest n)]))"
proof (intro conjI impI allI)
  assume "map_of rm repo = None"
  then have "truthy (map_of rm repo) = None" by simp
  then show "replicateItems w rm fm pid (item # items) tr =
        replicateItems w rm fm pid items
          (tr @ [Warn (NoRepositoryMappingForItem (item_id item) repo)])"
    using skip_unmapped[OF assms, of rm w pid tr]
    by (simp add: replicateItem_def afterCreation_def)
next
  fix dest owner name
  assume h: "map_of rm repo = Some dest \<and> dest \<noteq> [] \<and>
        firstTwo (split CHR ''/'' dest) = (owner, name) \<and>
        cannotResolve (gql_getGlobalIdForIssue w tr owner name n)"
  then have "truthy (map_of rm repo) = Some dest" by simp
  then show "replicateItems w rm fm pid (item # items) tr =
          replicateItems w rm fm pid items
            (tr @ [GetIssueOrPullRequest owner name n,
                   Warn (IssueOrPullRequestDoesNotExist (item_id item) dest n)])"
    using skip_unresolved[OF assms, of rm dest owner name w tr pid] h
    by (simp add: replicateItem_def afterCreation_def)
qed

theorem unresolved_item_is_skipped_witness:
  "isIssueOrPullRequest issueItem ''a/b'' 5 \<and>
   replicateItems exampleWorld [] [] ''P1'' [issueItem, draftItem] [] =
     ([Warn (NoRepositoryMappingForItem ''I1'' ''a/b''),
       AddDraftIssueToProject ''Idea'' ''**Created by `@alice` on T**\<newline>\<newline>hello'' ''P1'',
       ArchiveProjectItem ''P1'' ''N2''], Returned ()) \<and>
   isIssueOrPullRequest (issueItem\<lparr>item_content := PullRequest ''a/b'' 7 ''Feature''\<rparr>) ''a/b'' 7 \<and>
   replicateItems exampleWorld [(''a/b'', ''c/d'')] [] ''P1''
     [issueItem\<lparr>item_content := PullRequest ''a/b'' 7 ''Feature''\<rparr>, draftItem] [] =
     ([GetIssueOrPullRequest (Some ''c'') (Some ''d'') 7,
       Warn (IssueOrPullRequestDoesNotExist ''I1'' ''c/d'' 7),
       AddDraftIssueToProject ''Idea'' ''**Created by `@alice` on T**\<newline>\<newline>hello'' ''P1'',
       ArchiveProjectItem ''P1'' ''N2''], Returned ())"
  using unresolved_item_is_skipped
      [of issueItem "''a/b''" 5 "[]" exampleWorld "[]" "''P1''" "[draftItem]" "[]"]
    unresolved_item_is_skipped
      [of "issueItem\<lparr>item_content := PullRequest ''a/b'' 7 ''Feature''\<rparr>" "''a/b''" 7
          "[(''a/b'', ''c/d'')]" exampleWorld "[]" "''P1''" "[draftItem]" "[]"]
  by (simp add: run_defs example_defs isIssueOrPullRequest_def cannotResolve_def)

subsection \<open>The Status field protocol\<close>

lemma prompt_unfold:
  "promptUntilStatusFieldsCorrelate w sp pid url b acks tr =
     (case checkStatusFields w sp pid url b tr of
        Settled r \<Rightarrow> r
      | Retry tr2 \<Rightarrow>
          (case acks of
             0 \<Rightarrow> (tr2, Waiting)
           | Suc n \<Rightarrow> promptUntilStatusFieldsCorrelate w sp pid url False n tr2))"
  by (rule promptUntilStatusFieldsCorrelate.simps)

lemma check_first_event:
  assumes "find (\<lambda>field. field_name field = ''Status'') (project_fields sp) = Some sf"
    and "field_options sf = Some sourceOptions"
  shows "(\<exists>rest r. checkStatusFields w sp pid url b tr
            = Settled (tr @ GetProjectStatusField pid # rest, r))
     \<or> (\<exists>rest. checkStatusFields w sp pid url b tr = Retry (tr @ GetProjectStatusField pid # rest))"
  using assms
  by (cases "gql_getProjectStatusField w tr pid")
     (auto simp: checkStatusFields_def getProjectStatusField_def request_def split: sum.splits)

lemma prompt_extends:
  "\<exists>ext. fst (promptUntilStatusFieldsCorrelate w sp pid url b acks tr) = tr @ ext"
proof (induction acks arbitrary: b tr)
  case 0
  show ?case
    by (cases "gql_getProjectStatusField w tr pid")
      (auto simp: prompt_unfold checkStatusFields_def getProjectStatusField_def request_def
        split: option.splits sum.splits)
next
  case (Suc n)
  show ?case
  proof (cases "checkStatusFields w sp pid url b tr")
    case (Settled r)
    then show ?thesis
      by (cases "gql_getProjectStatusField w tr pid")
        (auto simp: prompt_unfold checkStatusFields_def getProjectStatusField_def request_def
          split: option.splits sum.splits)
  next
    case (Retry tr2)
    then have "\<exists>e. tr2 = tr @ e"
      by (cases "gql_getProjectStatusField w tr pid")
        (auto simp: checkStatusFields_def getProjectStatusField_def request_def
          split: option.splits sum.splits)
    then obtain e where e: "tr2 = tr @ e" by blast
    obtain ext where "fst (promptUntilStatusFieldsCorrelate w sp pid url False n tr2) = tr2 @ ext"
      using Suc.IH[of False tr2] by blast
    then show ?thesis using Retry e by (simp add: prompt_unfold)
  qed
qed

lemma prompt_first_event:
  assumes "find (\<lambda>field. field_name field = ''Status'') (project_fields sp) = Some sf"
    and "field_options sf = Some sourceOptions"
  shows "\<exists>rest. fst (promptUntilStatusFieldsCorrelate w sp pid url b acks tr)
     = tr @ GetProjectStatusField pid # rest"
proof -
  consider (settled) rest r where
      "checkStatusFields w sp pid url b tr = Settled (tr @ GetProjectStatusField pid # rest, r)"
    | (retry) rest where
      "checkStatusFields w sp pid url b tr = Retry (tr @ GetProjectStatusField pid # rest)"
    using check_first_event[OF assms, of w pid url b tr] by blast
  then show ?thesis
  proof cases
    case settled
    then show ?thesis by (simp add: prompt_unfold)
  next
    case retry
    show ?thesis
    proof (cases acks)
      case 0
      then show ?thesis using retry by (simp add: prompt_unfold)
    next
      case (Suc n)
      obtain ext where "fst (promptUntilStatusFieldsCorrelate w sp pid url False n
          (tr @ GetProjectStatusField pid # rest)) = (tr @ GetProjectStatusField pid # rest) @ ext"
        using prompt_extends by blast
      then show ?thesis using retry Suc by (simp add: prompt_unfold)
    qed
  qed
qed

text \<open>
  C4 (as amended). On first entry the protocol starts in the checking state: its first
  event is the fetch of the target's Status field, and the correlation is tried on the
  answer. If it succeeds, the protocol returns at once: nothing is printed and the
  operator is not asked. Only if it fails are the expected option names and the URL of
  the target project printed, and the run then waits for the operator; after the
  acknowledgement the next event is again a fetch of the target's Status field, and
  without an acknowledgement the run waits for ever.
\<close>

theorem status_check_precedes_prompt:
  assumes "find (\<lambda>field. field_name field = ''Status'') (project_fields sp) = Some sf"
    and "field_options sf = Some sourceOptions"
    and "gql_getProjectStatusField w tr pid = Inr tf"
  shows
   "(\<forall>m. correlateCustomFieldOptions sourceOptions (status_options tf) = Inr m \<longrightarrow>
       promptUntilStatusFieldsCorrelate w sp pid url True acks tr =
         (tr @ [GetProjectStatusField pid], Returned (field_id sf, status_id tf, m))) \<and>
    (isl (correlateCustomFieldOptions sourceOptions (status_options tf)) \<longrightarrow>
       (\<exists>rest. fst (promptUntilStatusFieldsCorrelate w sp pid url True acks tr) =
          tr @ [GetProjectStatusField pid,
                ConsoleLog (StatusFirstRunInstructions url (map opt_name sourceOptions)),
                Question] @ rest \<and>
          (acks = 0 \<longrightarrow> rest = []
             \<and> snd (promptUntilStatusFieldsCorrelate w sp pid url True acks tr) = Waiting) \<and>
          (acks \<noteq> 0 \<longrightarrow> (\<exists>rest'. rest = GetProjectStatusField pid # rest'))))"
proof (intro conjI allI impI)
  fix m
  assume "correlateCustomFieldOptions sourceOptions (status_options tf) = Inr m"
  then have "checkStatusFields w sp pid url True tr =
      Settled (tr @ [GetProjectStatusField pid], Returned (field_id sf, status_id tf, m))"
    using assms by (simp add: checkStatusFields_def getProjectStatusField_def request_def)
  then show "promptUntilStatusFieldsCorrelate w sp pid url True acks tr =
         (tr @ [GetProjectStatusField pid], Returned (field_id sf, status_id tf, m))"
    by (simp add: prompt_unfold)
next
  let ?tr2 = "tr @ [GetProjectStatusField pid,
                ConsoleLog (StatusFirstRunInstructions url (map opt_name sourceOptions)),
                Question]"
  assume "isl (correlateCustomFieldOptions sourceOptions (status_options tf))"
  then obtain e where "correlateCustomFieldOptions sourceOptions (status_options tf) = Inl e"
    by (cases "correlateCustomFieldOptions sourceOptions (status_options tf)") auto
  then have chk: "checkStatusFields w sp pid url True tr = Retry ?tr2"
    using assms by (simp add: checkStatusFields_def getProjectStatusField_def request_def)
  show "\<exists>rest. fst (promptUntilStatusFieldsCorrelate w sp pid url True acks tr) =
          tr @ [GetProjectStatusField pid,
                ConsoleLog (StatusFirstRunInstructions url (map opt_name sourceOptions)),
                Question] @ rest \<and>
          (acks = 0 \<longrightarrow> rest = []
             \<and> snd (promptUntilStatusFieldsCorrelate w sp pid url True acks tr) = Waiting) \<and>
          (acks \<noteq> 0 \<longrightarrow> (\<exists>rest'. rest = GetProjectStatusField pid # rest'))"
  proof (cases acks)
    case 0
    then show ?thesis using chk by (simp add: prompt_unfold)
  next
    case (Suc n)
    obtain rest' where "fst (promptUntilStatusFieldsCorrelate w sp pid url False n ?tr2)
        = ?tr2 @ GetProjectStatusField pid # rest'"
      using prompt_first_event[OF assms(1,2)] by blast
    then show ?thesis using chk Suc by (simp add: prompt_unfold)
  qed
qed

lemmas status_defs = prompt_unfold checkStatusFields_def getProjectStatusField_def
  correlateCustomFieldOptions_def request_def

theorem status_check_precedes_prompt_witness:
  "promptUntilStatusFieldsCorrelate exampleWorld exampleProject ''P1'' ''u'' True 1 [] =
     ([GetProjectStatusField ''P1'',
       ConsoleLog (StatusFirstRunInstructions ''u'' [''Todo'', ''Done'']),
       Question,
       GetProjectStatusField ''P1''],
      Returned (''F0'', ''TS'', [(''s1'', ''t1''), (''s2'', ''t2'')]))"
  using status_check_precedes_prompt
    [of exampleProject "hd (project_fields exampleProject)"
        "[mkOption ''s1'' ''Todo'', mkOption ''s2'' ''Done'']" exampleWorld "[]" "''P1''"
        "\<lparr>status_id = ''TS'', status_options = [mkOption ''t1'' ''Todo'',
            mkOption ''t3'' ''In Progress'', mkOption ''t2'' ''Done'']\<rparr>" "''u''" 1]
  by (simp add: status_defs example_defs)

text \<open>
  The check of the protocol is the correlation, which compares the number of options
  only: with the source options Todo and Done and the target options Backlog and
  Shipped the first entry returns at once, with a correlation that has no entry, and
  the operator is never told that the options do not match.
\<close>

lemma status_accepts_other_names:
  "promptUntilStatusFieldsCorrelate
     (exampleWorld\<lparr>gql_getProjectStatusField :=
        (\<lambda>tr projectId. Inr \<lparr>status_id = ''TS'',
           status_options = [mkOption ''t1'' ''Backlog'', mkOption ''t2'' ''Shipped'']\<rparr>)\<rparr>)
     exampleProject ''P1'' ''u'' True 0 [] =
     ([GetProjectStatusField ''P1''], Returned (''F0'', ''TS'', []))"
  by (simp add: status_defs example_defs)

text \<open>
  The claim as stated fails: when the Status options of the target already match, the
  first entry fetches them, correlates and returns; nothing is printed and the operator
  is never asked.
\<close>

theorem status_prompt_first_counterexample:
  "promptUntilStatusFieldsCorrelate
     (exampleWorld\<lparr>gql_getProjectStatusField :=
        (\<lambda>tr projectId. Inr \<lparr>status_id = ''TS'',
           status_options = [mkOption ''t1'' ''Todo'', mkOption ''t2'' ''Done'']\<rparr>)\<rparr>)
     exampleProject ''P1'' ''u'' True 1 [] =
     ([GetProjectStatusField ''P1''],
      Returned (''F0'', ''TS'', [(''s1'', ''t1''), (''s2'', ''t2'')]))"
  by (simp add: status_defs example_defs)

subsection \<open>The guard on an empty mapping table\<close>

lemma truthy_idem: "truthy x = Some s \<Longrightarrow> truthy (Some s) = Some s"
  by (cases x) (auto split: if_splits)

text \<open>
  C10. Let the run get as far as the guard: a token is given, both files exist, the
  rate limit is read, the snapshot is read, and the mapping file loads. If the loaded
  table has no entry while \<^verbatim>\<open>getReferencedRepositories\<close> finds a repository in the
  items of the snapshot, the action throws the error that asks for at least one
  repository mapping. The trace of the whole run is then the start warning, if any,
  and the reading of the rate limit: the owner is never looked up and no project is
  created.
\<close>

theorem empty_mappings_guard:
  assumes "truthy (accessToken opts) \<noteq> None \<or> truthy (env_IMPORT_GITHUB_TOKEN w) \<noteq> None"
    and "existsSync w (inputPath opts)"
    and "existsSync w (repositoryMappingsPath opts)"
    and "logRateLimitInformation w (startWarnings opts) = Inr again"
    and "readSnapshot w (inputPath opts) = Inr (sourceProject, sourceProjectItems)"
    and "readRepositoryMappings (parseCsv w (repositoryMappingsPath opts)) = Inr repositoryMappings"
    and "length repositoryMappings = 0"
    and "getReferencedRepositories w sourceProjectItems \<noteq> []"
  shows "importAction w opts =
       (startWarnings opts @ [LogRateLimitInformation],
        Threw (NoRepositoryMappings (repositoryMappingsPath opts))) \<and>
     GetOrganizationGlobalId (projectOwner opts) \<notin> set (fst (importAction w opts)) \<and>
     GetUserGlobalId (projectOwner opts) \<notin> set (fst (importAction w opts)) \<and>
     (\<forall>ownerId title. CreateProject ownerId title \<notin> set (fst (importAction w opts)))"
proof -
  have token: "truthy (case truthy (accessToken opts) of
                   Some token \<Rightarrow> Some token | None \<Rightarrow> env_IMPORT_GITHUB_TOKEN w) \<noteq> None"
  proof (cases "truthy (accessToken opts)")
    case None
    then show ?thesis using assms(1) by simp
  next
    case (Some s)
    then show ?thesis using truthy_idem[OF Some] by simp
  qed
  have run: "importAction w opts =
       (startWarnings opts @ [LogRateLimitInformation],
        Threw (NoRepositoryMappings (repositoryMappingsPath opts)))"
    unfolding importAction_def Let_def
    using token assms(2-8)
    by (simp add: request_def andThen_def)
  show ?thesis
    unfolding run by (simp add: startWarnings_def)
qed

theorem empty_mappings_guard_witness:
  "readRepositoryMappings [Data (mkRow ''a/b'' '''')] = Inr [] \<and>
   importAction (exampleWorld\<lparr>parseCsv := (\<lambda>path. [Data (mkRow ''a/b'' '''')])\<rparr>)
     exampleArguments =
     ([LogRateLimitInformation], Threw (NoRepositoryMappings ''repository-mappings.csv''))"
  using empty_mappings_guard
    [of exampleArguments "exampleWorld\<lparr>parseCsv := (\<lambda>path. [Data (mkRow ''a/b'' '''')])\<rparr>"
        False exampleProject "[issueItem, draftItem]" "[]"]
  by (simp add: example_defs startWarnings_def readRepositoryMappings_def onData_def
      hasMappingHeaders_def rowHeaders_def)

end
